theory Spec2Isabelle
  imports Complex_Main "HOL-Library.List_Lexorder"
begin

section \<open>JavaScript values\<close>

text \<open>
  A JavaScript number is modelled as an exact rational or one of the three non-finite
  values. Arithmetic on finite values is exact: the rounding of IEEE doubles and the
  sign of zero are not modelled. Comparisons with \<open>NaN\<close> are false, as in the language.
\<close>

datatype jsnum = Fin rat | PInf | NInf | NaN

text \<open>
  The values a numeric option or configuration field holds in this development:
  \<open>undefined\<close>, \<open>null\<close> or a number. Strings, booleans and objects in such a field
  are outside the model.
\<close>

datatype jsval = Undefined | Null | Number jsnum

datatype error = AssertionError string | Error string | SyntaxError | OutsideModel

fun ToNumber :: "jsval \<Rightarrow> jsnum" where
  "ToNumber Undefined = NaN"
| "ToNumber Null = Fin 0"
| "ToNumber (Number n) = n"

fun js_lt :: "jsnum \<Rightarrow> jsnum \<Rightarrow> bool" where
  "js_lt (Fin a) (Fin b) = (a < b)"
| "js_lt NaN _ = False"
| "js_lt _ NaN = False"
| "js_lt NInf NInf = False"
| "js_lt NInf _ = True"
| "js_lt _ NInf = False"
| "js_lt PInf _ = False"
| "js_lt _ PInf = True"

definition js_le :: "jsnum \<Rightarrow> jsnum \<Rightarrow> bool" where
  "js_le a b = (js_lt a b \<or> (a = b \<and> a \<noteq> NaN))"

definition js_ge :: "jsnum \<Rightarrow> jsnum \<Rightarrow> bool" where
  "js_ge a b = js_le b a"

fun js_add :: "jsnum \<Rightarrow> jsnum \<Rightarrow> jsnum" where
  "js_add (Fin a) (Fin b) = Fin (a + b)"
| "js_add NaN _ = NaN"
| "js_add _ NaN = NaN"
| "js_add PInf NInf = NaN"
| "js_add NInf PInf = NaN"
| "js_add PInf _ = PInf"
| "js_add _ PInf = PInf"
| "js_add NInf _ = NInf"
| "js_add _ NInf = NInf"

fun js_neg :: "jsnum \<Rightarrow> jsnum" where
  "js_neg (Fin a) = Fin (- a)"
| "js_neg PInf = NInf"
| "js_neg NInf = PInf"
| "js_neg NaN = NaN"

definition js_sub :: "jsnum \<Rightarrow> jsnum \<Rightarrow> jsnum" where
  "js_sub a b = js_add a (js_neg b)"

fun js_mul :: "jsnum \<Rightarrow> jsnum \<Rightarrow> jsnum" where
  "js_mul (Fin a) (Fin b) = Fin (a * b)"
| "js_mul NaN _ = NaN"
| "js_mul _ NaN = NaN"
| "js_mul PInf (Fin b) = (if b = 0 then NaN else if 0 < b then PInf else NInf)"
| "js_mul NInf (Fin b) = (if b = 0 then NaN else if 0 < b then NInf else PInf)"
| "js_mul (Fin a) PInf = (if a = 0 then NaN else if 0 < a then PInf else NInf)"
| "js_mul (Fin a) NInf = (if a = 0 then NaN else if 0 < a then NInf else PInf)"
| "js_mul PInf PInf = PInf"
| "js_mul NInf NInf = PInf"
| "js_mul PInf NInf = NInf"
| "js_mul NInf PInf = NInf"

fun js_div :: "jsnum \<Rightarrow> jsnum \<Rightarrow> jsnum" where
  "js_div (Fin a) (Fin b) =
     (if b = 0 then (if a = 0 then NaN else if 0 < a then PInf else NInf)
      else Fin (a / b))"
| "js_div NaN _ = NaN"
| "js_div _ NaN = NaN"
| "js_div (Fin a) _ = Fin 0"
| "js_div PInf (Fin b) = (if 0 \<le> b then PInf else NInf)"
| "js_div NInf (Fin b) = (if 0 \<le> b then NInf else PInf)"
| "js_div PInf PInf = NaN"
| "js_div PInf NInf = NaN"
| "js_div NInf PInf = NaN"
| "js_div NInf NInf = NaN"

fun Math_floor :: "jsnum \<Rightarrow> jsnum" where
  "Math_floor (Fin a) = Fin (of_int \<lfloor>a\<rfloor>)"
| "Math_floor x = x"

text \<open>The global \<open>isNaN\<close> (its argument is converted to a number first).\<close>

definition isNaN :: "jsval \<Rightarrow> bool" where
  "isNaN v = (ToNumber v = NaN)"

text \<open>lodash's \<open>_.isFinite\<close>: a number primitive that is finite; no conversion.\<close>

fun lodash_isFinite :: "jsval \<Rightarrow> bool" where
  "lodash_isFinite (Number (Fin a)) = True"
| "lodash_isFinite _ = False"

fun isUndefined :: "jsval \<Rightarrow> bool" where
  "isUndefined Undefined = True"
| "isUndefined _ = False"

text \<open>Truthiness of a value: \<open>undefined\<close>, \<open>null\<close>, \<open>0\<close> and \<open>NaN\<close> are falsy.\<close>

fun truthy :: "jsval \<Rightarrow> bool" where
  "truthy Undefined = False"
| "truthy Null = False"
| "truthy (Number NaN) = False"
| "truthy (Number (Fin a)) = (a \<noteq> 0)"
| "truthy (Number _) = True"

section \<open>util: frames and durations\<close>

text \<open>
  \<^verbatim>\<open>durationToFrameCount(duration, fps)\<close> asserts that both arguments are finite and
  returns \<^verbatim>\<open>Math.floor(duration / 1000 * fps)\<close>;
  \<^verbatim>\<open>frameCountToDuration(frameCount, fps)\<close> asserts the same and returns
  \<^verbatim>\<open>frameCount / fps\<close>.
\<close>

definition durationToFrameCount :: "jsval \<Rightarrow> jsval \<Rightarrow> error + jsnum" where
  "durationToFrameCount duration fps =
     (if \<not> lodash_isFinite duration then Inl (AssertionError ''duration must be number'')
      else if \<not> lodash_isFinite fps then Inl (AssertionError ''fps must be number'')
      else Inr (Math_floor (js_mul (js_div (ToNumber duration) (Fin 1000)) (ToNumber fps))))"


section \<open>Page.startScreencast: the configuration sent to the page\<close>





section \<open>VideoCanvas: eligibility of a media\<close>

text \<open>
  The fields of a \<^verbatim>\<open>VideoCanvas\<close> that \<^verbatim>\<open>canPlay\<close> and \<^verbatim>\<open>canDestory\<close> read. The
  constructor asserts \<^verbatim>\<open>u.isNumber(startTime)\<close> and \<^verbatim>\<open>u.isNumber(endTime)\<close>, where
  \<^verbatim>\<open>u.isNumber(v)\<close> is \<^verbatim>\<open>!isNaN(v)\<close>; a new media is not destroyed.
\<close>

record VideoCanvas =
  vc_startTime :: jsval
  vc_endTime :: jsval
  vc_destoryed :: bool

definition u_isNumber :: "jsval \<Rightarrow> bool" where
  "u_isNumber v = (\<not> isNaN v)"

definition new_VideoCanvas :: "jsval \<Rightarrow> jsval \<Rightarrow> error + VideoCanvas" where
  "new_VideoCanvas startTime endTime =
     (if \<not> u_isNumber startTime then Inl (Error ''startTime must be number'')
      else if \<not> u_isNumber endTime then Inl (Error ''endTime must be number'')
      else Inr \<lparr>vc_startTime = startTime, vc_endTime = endTime, vc_destoryed = False\<rparr>)"

text \<open>\<^verbatim>\<open>canPlay\<close> returns \<open>undefined\<close> (here \<open>None\<close>) on a destroyed media.\<close>

definition canPlay :: "VideoCanvas \<Rightarrow> jsnum \<Rightarrow> bool option" where
  "canPlay m time =
     (if vc_destoryed m then None
      else if js_lt time (ToNumber (vc_startTime m)) \<or> js_ge time (ToNumber (vc_endTime m))
        then Some False
      else Some True)"

definition canDestory :: "VideoCanvas \<Rightarrow> jsnum \<Rightarrow> bool" where
  "canDestory m time =
     (if vc_destoryed m then False else js_ge time (ToNumber (vc_endTime m)))"

section \<open>CaptureContext: virtual timers\<close>















section \<open>CaptureContext: the capture loop\<close>











section \<open>Page: time actions\<close>

text \<open>
  \<^verbatim>\<open>String(n)\<close> for a non-negative integer below \<open>10^21\<close>: its decimal digits.
\<close>

fun decimal :: "nat \<Rightarrow> string" where
  "decimal n =
     (if n < 10 then [char_of (48 + n)]
      else decimal (n div 10) @ [char_of (48 + n mod 10)])"

declare decimal.simps [simp del]

text \<open>
  \<^verbatim>\<open>Array.prototype.sort()\<close> without a comparison function orders the elements by
  their string conversions, compared code unit by code unit. Code units are compared
  here by their numbers.
\<close>

definition array_sort :: "nat list \<Rightarrow> nat list" where
  "array_sort ks = sort_key (\<lambda>k. map (of_char :: char \<Rightarrow> nat) (decimal k)) ks"

text \<open>
  \<^verbatim>\<open>parseInt(currentTime)\<close> for a time whose string conversion is in plain decimal
  notation: the integer part.
\<close>

definition parseInt :: "rat \<Rightarrow> int" where
  "parseInt t = (if 0 \<le> t then \<lfloor>t\<rfloor> else \<lceil>t\<rceil>)"

text \<open>
  The \<open>timeActions\<close> object of a page: its own properties in order, with keys that are
  non-negative integers (milliseconds) and actions of an arbitrary type \<open>'a\<close>. The
  trace \<open>invoked\<close> lists the actions called so far.
\<close>

record 'a Page =
  timeActions :: "(nat \<times> 'a) list"
  invoked :: "'a list"

definition seekTimeActions :: "rat \<Rightarrow> 'a Page \<Rightarrow> 'a Page" where
  "seekTimeActions now p =
     (let t = parseInt now;
          matchTimeNodes = find (\<lambda>time. t \<ge> int time)
                             (array_sort (map fst (timeActions p)))
      in case matchTimeNodes of
           None \<Rightarrow> p
         | Some k \<Rightarrow>
             if k = 0 then p
             else (case map_of (timeActions p) k of
                     None \<Rightarrow> p
                   | Some timeAction \<Rightarrow>
                       p\<lparr>timeActions := filter (\<lambda>(k', a). k' \<noteq> k) (timeActions p),
                         invoked := invoked p @ [timeAction]\<rparr>))"

section \<open>Synthesizer, VideoChunk and ChunkSynthesizer\<close>

record Audio =
  au_path :: string
  au_startTime :: jsval
  au_endTime :: jsval


record Transition =
  tr_id :: string
  tr_duration :: jsnum

datatype synth_state = READY | SYNTHESIZING | COMPLETED

text \<open>
  The fields of a \<^verbatim>\<open>Synthesizer\<close> used below; \<open>sy_frameCount\<close> is \<^verbatim>\<open>_frameCount\<close>, the
  number of frames received so far.
\<close>

record Synthesizer =
  sy_width :: jsnum
  sy_height :: jsnum
  sy_fps :: jsnum
  sy_duration :: jsnum
  sy_format :: string
  sy_frameCount :: nat
  sy_targetFrameCount :: jsnum
  sy_state :: synth_state
  sy_audios :: "Audio list"

record VideoChunk = Synthesizer +
  transition :: "Transition option"

record ChunkSynthesizer = Synthesizer +
  chunks :: "VideoChunk list"

text \<open>
  The options of the \<^verbatim>\<open>Synthesizer\<close> constructor that decide the first assertions and
  the format. The options checked after \<open>format\<close> (cover, encoders, bitrates, volume
  and so on) are left out.
\<close>

record synth_options =
  so_width :: jsval
  so_height :: jsval
  so_fps :: jsval
  so_duration :: jsval
  so_format :: "string option"
  so_outputPath :: "string option"

definition SUPPORT_FORMAT :: "string list" where
  "SUPPORT_FORMAT = [''mp4'', ''webm'']"

text \<open>\<^verbatim>\<open>x % 2 === 0\<close> for a value that \<^verbatim>\<open>_.isFinite\<close> accepted.\<close>

fun rem2_is_zero :: "jsval \<Rightarrow> bool" where
  "rem2_is_zero (Number (Fin a)) =
     (a - 2 * of_int (if 0 \<le> a then \<lfloor>a / 2\<rfloor> else \<lceil>a / 2\<rceil>) = 0)"
| "rem2_is_zero _ = False"

text \<open>
  The constructor. \<open>isVideoChunk\<close> is what \<^verbatim>\<open>this._isVideoChunk()\<close> returns and
  \<open>extname\<close> stands for \<^verbatim>\<open>path.extname(outputPath).substring(1)\<close>.
\<close>

definition new_Synthesizer ::
  "bool \<Rightarrow> (string \<Rightarrow> string) \<Rightarrow> synth_options \<Rightarrow> error + Synthesizer" where
  "new_Synthesizer isVideoChunk extname options =
     (if \<not> (lodash_isFinite (so_width options) \<and> rem2_is_zero (so_width options))
        then Inl (AssertionError ''width must be even number'')
      else if \<not> (lodash_isFinite (so_height options) \<and> rem2_is_zero (so_height options))
        then Inl (AssertionError ''height must be even number'')
      else if \<not> lodash_isFinite (so_duration options)
        then Inl (AssertionError ''synthesis duration must be number'')
      else if \<not> (so_outputPath options \<noteq> None \<or> isVideoChunk)
        then Inl (AssertionError ''outputPath must be string'')
      else if \<not> (isUndefined (so_fps options) \<or> lodash_isFinite (so_fps options))
        then Inl (AssertionError ''synthesis fps must be number'')
      else if \<not> (so_format options = None \<or> the (so_format options) \<in> set SUPPORT_FORMAT)
        then Inl (AssertionError ''format is not supported'')
      else
        (let fmt =
           (if (so_format options = None \<or> so_format options = Some [])
               \<and> so_outputPath options \<noteq> None \<and> so_outputPath options \<noteq> Some []
               \<and> \<not> isVideoChunk
            then (let f = extname (the (so_outputPath options))
                  in if f = [] then Inl (Error ''Unable to recognize output video format'')
                     else if f \<notin> set SUPPORT_FORMAT
                       then Inl (Error ''Unsupported output video format'')
                     else Inr f)
            else if so_format options \<noteq> None \<and> so_format options \<noteq> Some []
              then Inr (the (so_format options))
            else Inr (hd SUPPORT_FORMAT));
             fps = (if isUndefined (so_fps options) then Number (Fin 30) else so_fps options)
         in case fmt of
              Inl e \<Rightarrow> Inl e
            | Inr f \<Rightarrow>
                (case durationToFrameCount (so_duration options) fps of
                   Inl e \<Rightarrow> Inl e
                 | Inr n \<Rightarrow>
                     Inr \<lparr>sy_width = ToNumber (so_width options),
                          sy_height = ToNumber (so_height options),
                          sy_fps = ToNumber fps,
                          sy_duration = ToNumber (so_duration options),
                          sy_format = f, sy_frameCount = 0, sy_targetFrameCount = n,
                          sy_state = READY, sy_audios = []\<rparr>)))"

text \<open>
  \<^verbatim>\<open>Synthesizer.getOutputDuration()\<close>: the configured duration until frames have been
  received, then \<^verbatim>\<open>Math.floor(this._frameCount / this.fps) * 1000\<close>.
\<close>

definition getOutputDuration :: "'a Synthesizer_scheme \<Rightarrow> jsnum" where
  "getOutputDuration s =
     (if \<not> truthy (Number (sy_fps s)) \<or> sy_frameCount s = 0
        then (if truthy (Number (sy_duration s)) then sy_duration s else Fin 0)
      else js_mul (Math_floor (js_div (Fin (of_nat (sy_frameCount s))) (sy_fps s))) (Fin 1000))"

definition transitionDuration :: "VideoChunk \<Rightarrow> jsnum" where
  "transitionDuration c = (case transition c of None \<Rightarrow> Fin 0 | Some t \<Rightarrow> tr_duration t)"

text \<open>\<^verbatim>\<open>VideoChunk.getOutputDuration()\<close>.\<close>

definition VideoChunk_getOutputDuration :: "VideoChunk \<Rightarrow> jsnum" where
  "VideoChunk_getOutputDuration c = js_sub (getOutputDuration c) (transitionDuration c)"


text \<open>\<^verbatim>\<open>a == b\<close> on numbers.\<close>

definition js_eq :: "jsnum \<Rightarrow> jsnum \<Rightarrow> bool" where
  "js_eq a b = (a = b \<and> a \<noteq> NaN)"

text \<open>
  \<^verbatim>\<open>ChunkSynthesizer.input(chunk, transition)\<close> for a chunk that is a \<^verbatim>\<open>VideoChunk\<close>
  (so its width, height and fps are set) and a transition that, when given, is
  already a \<^verbatim>\<open>Transition\<close>.
\<close>

definition input :: "VideoChunk \<Rightarrow> Transition option \<Rightarrow> ChunkSynthesizer \<Rightarrow> error + ChunkSynthesizer" where
  "input chunk tr s =
     (if \<not> js_eq (sy_width chunk) (sy_width s)
        then Inl (AssertionError ''input chunk width does not match the previous block'')
      else if \<not> js_eq (sy_height chunk) (sy_height s)
        then Inl (AssertionError ''input chunk height does not match the previous block'')
      else if \<not> js_eq (sy_fps chunk) (sy_fps s)
        then Inl (AssertionError ''input chunk fps does not match the previous block'')
      else
        (let chunk' = (case tr of None \<Rightarrow> chunk | Some t \<Rightarrow> chunk\<lparr>transition := Some t\<rparr>)
         in Inr (s\<lparr>chunks := chunks s @ [chunk'],
                  sy_width := sy_width chunk',
                  sy_height := sy_height chunk',
                  sy_fps := sy_fps chunk',
                  sy_duration := js_add (sy_duration s) (VideoChunk_getOutputDuration chunk'),
                  sy_targetFrameCount :=
                    js_add (sy_targetFrameCount s) (sy_targetFrameCount chunk')\<rparr>)))"

text \<open>Several inputs in turn, stopping at the first failed assertion.\<close>

fun input_all :: "(VideoChunk \<times> Transition option) list \<Rightarrow> ChunkSynthesizer \<Rightarrow> error + ChunkSynthesizer" where
  "input_all [] s = Inr s"
| "input_all ((c, tr) # rest) s =
     (case input c tr s of Inl e \<Rightarrow> Inl e | Inr s' \<Rightarrow> input_all rest s')"

text \<open>
  The constructor sets \<^verbatim>\<open>options.duration = 0\<close>, runs the \<^verbatim>\<open>Synthesizer\<close> constructor
  and inputs the chunks given in the options.
\<close>

definition new_ChunkSynthesizer ::
  "(string \<Rightarrow> string) \<Rightarrow> synth_options \<Rightarrow> VideoChunk list \<Rightarrow> error + ChunkSynthesizer" where
  "new_ChunkSynthesizer extname options cs =
     (case new_Synthesizer False extname (options\<lparr>so_duration := Number (Fin 0)\<rparr>) of
        Inl e \<Rightarrow> Inl e
      | Inr s \<Rightarrow> input_all (map (\<lambda>c. (c, None)) cs) (Synthesizer.extend s \<lparr>chunks = []\<rparr>))"





text \<open>
  In the words of the specification: the effective duration of a chunk is
  \<open>duration - transition.duration\<close>, and the offset of chunk \<open>i\<close> is the sum of the
  effective durations of the chunks before it. Sums are taken from the left,
  starting at 0.
\<close>

definition effective_duration :: "VideoChunk \<Rightarrow> jsnum" where
  "effective_duration c = js_sub (sy_duration c) (transitionDuration c)"

definition js_sum :: "jsnum list \<Rightarrow> jsnum" where
  "js_sum xs = foldl js_add (Fin 0) xs"


fun the_Fin :: "jsnum \<Rightarrow> rat" where
  "the_Fin (Fin a) = a"
| "the_Fin _ = 0"

section \<open>The packed payload of the video preprocessor\<close>

text \<open>
  Bytes are characters; a \<^verbatim>\<open>Buffer\<close>, an \<^verbatim>\<open>ArrayBuffer\<close> and a \<^verbatim>\<open>Uint8Array\<close> are
  byte lists. A JSON value has integer numbers here, and a string is the list of the
  bytes of its UTF-8 encoding. A field of the object given to \<^verbatim>\<open>#packData\<close> is a
  \<^verbatim>\<open>Buffer\<close> or a JSON value; the object is the list of its properties in order.
\<close>

datatype json =
    JNull
  | JBool bool
  | JNum int
  | JStr string
  | JArr "json list"
  | JObj "(string \<times> json) list"

datatype field = Buf string | Val json

text \<open>
  \<^verbatim>\<open>JSON.stringify\<close> on these values, followed by \<^verbatim>\<open>Buffer.from\<close>: no white space; in a
  string the quote, the backslash and the control characters are escaped.
\<close>

definition hex_digit :: "nat \<Rightarrow> char" where
  "hex_digit n = (if n < 10 then char_of (48 + n) else char_of (87 + n))"

definition quote_char :: "char \<Rightarrow> string" where
  "quote_char c =
     (if c = CHR 0x22 then [CHR 0x5C, CHR 0x22]
      else if c = CHR 0x5C then [CHR 0x5C, CHR 0x5C]
      else if c = CHR 0x08 then [CHR 0x5C, CHR ''b'']
      else if c = CHR 0x0C then [CHR 0x5C, CHR ''f'']
      else if c = CHR 0x0A then [CHR 0x5C, CHR ''n'']
      else if c = CHR 0x0D then [CHR 0x5C, CHR ''r'']
      else if c = CHR 0x09 then [CHR 0x5C, CHR ''t'']
      else if (of_char c :: nat) < 32
        then [CHR 0x5C, CHR ''u'', CHR ''0'', CHR ''0'',
              hex_digit (of_char c div 16), hex_digit (of_char c mod 16)]
      else [c])"

definition quote :: "string \<Rightarrow> string" where
  "quote s = [CHR 0x22] @ concat (map quote_char s) @ [CHR 0x22]"

fun join_comma :: "string list \<Rightarrow> string" where
  "join_comma [] = []"
| "join_comma [x] = x"
| "join_comma (x # y # ys) = x @ '','' @ join_comma (y # ys)"

fun JSON_stringify :: "json \<Rightarrow> string" where
  "JSON_stringify JNull = ''null''"
| "JSON_stringify (JBool b) = (if b then ''true'' else ''false'')"
| "JSON_stringify (JNum n) = (if n < 0 then ''-'' @ decimal (nat (- n)) else decimal (nat n))"
| "JSON_stringify (JStr s) = quote s"
| "JSON_stringify (JArr vs) = ''['' @ join_comma (map JSON_stringify vs) @ '']''"
| "JSON_stringify (JObj kvs) =
     ''{'' @ join_comma (map (\<lambda>(k, v). quote k @ '':'' @ JSON_stringify v) kvs) @ ''}''"

text \<open>
  The \<^verbatim>\<open>for (let key in data)\<close> loop of \<^verbatim>\<open>#packData\<close>, from a given \<open>bufferOffset\<close>:
  the properties of \<open>obj\<close> and the list \<open>buffers\<close>.
\<close>

fun pack_loop :: "(string \<times> field) list \<Rightarrow> nat \<Rightarrow> (string \<times> json) list \<times> string list" where
  "pack_loop [] bufferOffset = ([], [])"
| "pack_loop ((key, Buf b) # rest) bufferOffset =
     (let (obj, buffers) = pack_loop rest (bufferOffset + length b)
      in ((key, JArr [JStr ''buffer'', JNum (int bufferOffset),
                      JNum (int (bufferOffset + length b))]) # obj,
          b # buffers))"
| "pack_loop ((key, Val v) # rest) bufferOffset =
     (let (obj, buffers) = pack_loop rest bufferOffset
      in ((key, v) # obj, buffers))"

definition packData :: "(string \<times> field) list \<Rightarrow> string" where
  "packData data =
     (let (obj, buffers) = pack_loop data 0;
          objBuffer = JSON_stringify (JObj obj)
      in concat ((decimal (length objBuffer) @ ''!'') # objBuffer # buffers))"

text \<open>
  \<^verbatim>\<open>parseInt(string)\<close>: leading white space, a sign, a hexadecimal prefix, then the
  longest run of digits; \<open>None\<close> is \<open>NaN\<close>.
\<close>

definition is_space :: "char \<Rightarrow> bool" where
  "is_space c = (of_char c \<in> {9, 10, 11, 12, 13, 32, 160 :: nat})"

definition digit_val :: "nat \<Rightarrow> char \<Rightarrow> nat option" where
  "digit_val radix c =
     (let n = (of_char c :: nat);
          v = (if 48 \<le> n \<and> n \<le> 57 then Some (n - 48)
               else if 97 \<le> n \<and> n \<le> 122 then Some (n - 87)
               else if 65 \<le> n \<and> n \<le> 90 then Some (n - 55)
               else None)
      in case v of None \<Rightarrow> None | Some d \<Rightarrow> if d < radix then Some d else None)"

fun parse_digits :: "nat \<Rightarrow> string \<Rightarrow> nat \<Rightarrow> bool \<Rightarrow> nat option" where
  "parse_digits radix [] acc seen = (if seen then Some acc else None)"
| "parse_digits radix (c # cs) acc seen =
     (case digit_val radix c of
        None \<Rightarrow> (if seen then Some acc else None)
      | Some d \<Rightarrow> parse_digits radix cs (acc * radix + d) True)"

definition parseInt_string :: "string \<Rightarrow> int option" where
  "parseInt_string s =
     (let s1 = dropWhile is_space s;
          (neg, s2) = (case s1 of
                         [] \<Rightarrow> (False, s1)
                       | c # r \<Rightarrow> if c = CHR ''-'' then (True, r)
                                  else if c = CHR ''+'' then (False, r)
                                  else (False, s1));
          (radix, s3) = (case s2 of
                           c # x # r \<Rightarrow>
                             if c = CHR ''0'' \<and> (x = CHR ''x'' \<or> x = CHR ''X'')
                             then (16, r) else (10, s2)
                         | _ \<Rightarrow> (10, s2))
      in map_option (\<lambda>n. if neg then - int n else int n) (parse_digits radix s3 0 False))"

text \<open>The search for the first \<^verbatim>\<open>!\<close>, from index \<open>i\<close>.\<close>

fun find_delimiter :: "string \<Rightarrow> nat \<Rightarrow> nat option" where
  "find_delimiter [] i = None"
| "find_delimiter (c # cs) i = (if c = CHR ''!'' then Some i else find_delimiter cs (i + 1))"

text \<open>\<^verbatim>\<open>ArrayBuffer.prototype.slice(b, e)\<close> for integer arguments.\<close>

definition slice :: "string \<Rightarrow> int \<Rightarrow> int \<Rightarrow> string" where
  "slice buf b e =
     (let len = int (length buf);
          first = (if b < 0 then max (len + b) 0 else min b len);
          final = (if e < 0 then max (len + e) 0 else min e len)
      in take (nat (max (final - first) 0)) (drop (nat first) buf))"

text \<open>
  The argument \<^verbatim>\<open>bufferOffset + v\<close> of \<^verbatim>\<open>slice\<close>, as an integer, where \<open>v\<close> is an
  entry of the array or missing (\<open>undefined\<close>, which makes the sum \<open>NaN\<close> and the
  argument 0). With a string, an array or an object the sum is a string
  concatenation, which is outside the model (\<open>None\<close>).
\<close>

fun plus_index :: "nat \<Rightarrow> json option \<Rightarrow> int option" where
  "plus_index bo None = Some 0"
| "plus_index bo (Some (JNum n)) = Some (int bo + n)"
| "plus_index bo (Some JNull) = Some (int bo)"
| "plus_index bo (Some (JBool b)) = Some (int bo + (if b then 1 else 0))"
| "plus_index bo (Some _) = None"

datatype uval = UBytes string | UJson json

datatype unpacked =
    UObject "(string \<times> uval) list"
  | UArray "uval list"
  | UOther json

definition nth_opt :: "'a list \<Rightarrow> nat \<Rightarrow> 'a option" where
  "nth_opt xs i = (if i < length xs then Some (xs ! i) else None)"

text \<open>
  The body of the last loop of \<^verbatim>\<open>_unpackData\<close> for one property value: an array whose
  first entry is the string \<^verbatim>\<open>buffer\<close> is replaced by the bytes its second and third
  entries delimit.
\<close>

definition unpack_value :: "string \<Rightarrow> nat \<Rightarrow> json \<Rightarrow> error + uval" where
  "unpack_value packed bufferOffset v =
     (case v of
        JArr (JStr tag # rest) \<Rightarrow>
          if tag = ''buffer'' then
            (case (plus_index bufferOffset (nth_opt rest 0),
                   plus_index bufferOffset (nth_opt rest 1)) of
               (Some b, Some e) \<Rightarrow> Inr (UBytes (slice packed b e))
             | _ \<Rightarrow> Inl OutsideModel)
          else Inr (UJson v)
      | _ \<Rightarrow> Inr (UJson v))"

fun unpack_values :: "string \<Rightarrow> nat \<Rightarrow> json list \<Rightarrow> error + uval list" where
  "unpack_values packed bo [] = Inr []"
| "unpack_values packed bo (v # vs) =
     (case unpack_value packed bo v of
        Inl e \<Rightarrow> Inl e
      | Inr u \<Rightarrow> (case unpack_values packed bo vs of
                    Inl e \<Rightarrow> Inl e
                  | Inr us \<Rightarrow> Inr (u # us)))"

text \<open>
  \<^verbatim>\<open>_unpackData(packedData)\<close>. Its first argument stands for
  \<^verbatim>\<open>JSON.parse(new TextDecoder("utf-8").decode(objBytes))\<close>, with \<open>None\<close> for a syntax
  error.
\<close>

definition unpackData :: "(string \<Rightarrow> json option) \<Rightarrow> string \<Rightarrow> error + unpacked" where
  "unpackData JSON_parse packedData =
     (case find_delimiter packedData 0 of
        None \<Rightarrow> Inl (Error ''Invalid data format: header delimiter not found'')
      | Some delimiterIndex \<Rightarrow>
          (case parseInt_string (take delimiterIndex packedData) of
             None \<Rightarrow> Inl (Error ''Invalid data format: Invalid data length'')
           | Some objLength \<Rightarrow>
               if objLength \<le> 0 \<or> objLength > int (length packedData) - int delimiterIndex - 1
                 then Inl (Error ''Invalid data format: Invalid data length'')
               else
                 (let objBytes = take (nat objLength) (drop (delimiterIndex + 1) packedData);
                      bufferOffset = delimiterIndex + 1 + nat objLength
                  in case JSON_parse objBytes of
                       None \<Rightarrow> Inl SyntaxError
                     | Some (JObj kvs) \<Rightarrow>
                         (case unpack_values packedData bufferOffset (map snd kvs) of
                            Inl e \<Rightarrow> Inl e
                          | Inr us \<Rightarrow> Inr (UObject (zip (map fst kvs) us)))
                     | Some (JArr vs) \<Rightarrow>
                         (case unpack_values packedData bufferOffset vs of
                            Inl e \<Rightarrow> Inl e
                          | Inr us \<Rightarrow> Inr (UArray us))
                     | Some v \<Rightarrow> Inr (UOther v))))"

text \<open>
  What the round trip is expected to return, in the words of the specification: the
  same non-buffer fields and the bytes of every buffer.
\<close>

definition expected_unpacked :: "(string \<times> field) list \<Rightarrow> unpacked" where
  "expected_unpacked data =
     UObject (map (\<lambda>(k, f). (k, case f of Buf b \<Rightarrow> UBytes b | Val v \<Rightarrow> UJson v)) data)"

text \<open>A JSON value that the format reads as a reference to a buffer.\<close>

fun tagged :: "field \<Rightarrow> bool" where
  "tagged (Val (JArr (JStr tag # rest))) = (tag = ''buffer'')"
| "tagged _ = False"

section \<open>Notions used to state the claims\<close>









text \<open>
  The chunk that \<^verbatim>\<open>input(chunk, transition)\<close> stores: the transition given with the call
  replaces the one of the chunk. A chunk that has not been rendered has received no
  frame; its duration is a number, as its constructor asserts.
\<close>

definition with_transition :: "VideoChunk \<times> Transition option \<Rightarrow> VideoChunk" where
  "with_transition ct = (case snd ct of None \<Rightarrow> fst ct | Some t \<Rightarrow> (fst ct)\<lparr>transition := Some t\<rparr>)"

definition unrendered :: "VideoChunk \<Rightarrow> bool" where
  "unrendered c = (sy_frameCount c = 0 \<and> sy_duration c \<noteq> NaN)"


text \<open>
  Example data: a 1280x720 chunk at 30 fps of a given duration, the options of a
  synthesizer of that size, an output path with the extension \<open>mp4\<close>, a chunk of 1.5 s
  that has been rendered (45 frames) and two audios.
\<close>

definition scene :: "rat \<Rightarrow> Transition option \<Rightarrow> VideoChunk" where
  "scene d tr =
     \<lparr>sy_width = Fin 1280, sy_height = Fin 720, sy_fps = Fin 30, sy_duration = Fin d,
      sy_format = ''mpegts'', sy_frameCount = 0,
      sy_targetFrameCount = Fin (of_int \<lfloor>d / 1000 * 30\<rfloor>), sy_state = READY,
      sy_audios = [], transition = tr\<rparr>"

definition hd_options :: synth_options where
  "hd_options =
     \<lparr>so_width = Number (Fin 1280), so_height = Number (Fin 720), so_fps = Number (Fin 30),
      so_duration = Undefined, so_format = Some ''mp4'', so_outputPath = Some ''out.mp4''\<rparr>"

definition mp4_extname :: "string \<Rightarrow> string" where
  "mp4_extname p = ''mp4''"




text \<open>
  A header \<open>v\<close> is JSON-serializable when \<^verbatim>\<open>JSON.parse\<close> gives it back from its text.
  \<open>inverse_parse v\<close> is \<^verbatim>\<open>JSON.parse\<close> on the text of \<open>v\<close> alone, and a syntax error on
  any other text; it stands for \<^verbatim>\<open>JSON.parse\<close> in the examples.
\<close>

definition inverse_parse :: "json \<Rightarrow> string \<Rightarrow> json option" where
  "inverse_parse v s = (if s = JSON_stringify v then Some v else None)"

text \<open>A decimal digit; and what the round trip makes of one field.\<close>

definition is_digit :: "char \<Rightarrow> bool" where
  "is_digit c = (48 \<le> (of_char c :: nat) \<and> (of_char c :: nat) \<le> 57)"

definition expected_field :: "field \<Rightarrow> uval" where
  "expected_field f = (case f of Buf b \<Rightarrow> UBytes b | Val v \<Rightarrow> UJson v)"

text \<open>
  Example data: a JSON value that looks like a reference to a buffer, and a result
  of the preprocessor whose buffer and note contain the byte of \<^verbatim>\<open>!\<close>.
\<close>

definition buffer_like :: json where
  "buffer_like = JArr [JStr ''buffer'', JNum 0, JNum 0]"

definition video_result :: "(string \<times> field) list" where
  "video_result =
     [(''buffer'', Buf [CHR 0x00, CHR 0x21, CHR 0xFF]), (''maskBuffer'', Buf []),
      (''hasMask'', Val (JBool False)), (''hasAudio'', Val (JBool True)),
      (''note'', Val (JStr ''a!b''))]"

section \<open>Auxiliary facts\<close>

subsection \<open>Comparisons and the capture loop\<close>






lemma new_VideoCanvas_fields:
  assumes "new_VideoCanvas s e = Inr m"
  shows "u_isNumber (vc_startTime m)" and "u_isNumber (vc_endTime m)" and "\<not> vc_destoryed m"
  using assms by (auto simp: new_VideoCanvas_def split: if_splits)


subsection \<open>Even numbers\<close>


subsection \<open>The timer queues\<close>



























subsection \<open>Chunks and their audios\<close>

lemma getOutputDuration_unrendered:
  "sy_frameCount c = 0 \<Longrightarrow> sy_duration c \<noteq> NaN \<Longrightarrow> getOutputDuration c = sy_duration c"
  by (cases "sy_duration c") (auto simp: getOutputDuration_def)

lemma VideoChunk_getOutputDuration_unrendered:
  "unrendered c \<Longrightarrow> VideoChunk_getOutputDuration c = effective_duration c"
  by (simp add: unrendered_def VideoChunk_getOutputDuration_def effective_duration_def
      getOutputDuration_unrendered)

lemma unrendered_with_transition: "unrendered (fst ct) \<Longrightarrow> unrendered (with_transition ct)"
  by (simp add: unrendered_def with_transition_def split: option.splits)

lemma input_result:
  assumes "input c tr s = Inr s'" and "unrendered c"
  shows "chunks s' = chunks s @ [with_transition (c, tr)]"
    and "sy_duration s' = js_add (sy_duration s) (effective_duration (with_transition (c, tr)))"
proof -
  have u: "unrendered (with_transition (c, tr))"
    using assms(2) by (simp add: unrendered_with_transition)
  have w: "(case tr of None \<Rightarrow> c | Some t \<Rightarrow> c\<lparr>transition := Some t\<rparr>) = with_transition (c, tr)"
    by (simp add: with_transition_def split: option.splits)
  have s': "s' = s\<lparr>chunks := chunks s @ [with_transition (c, tr)],
                  sy_width := sy_width (with_transition (c, tr)),
                  sy_height := sy_height (with_transition (c, tr)),
                  sy_fps := sy_fps (with_transition (c, tr)),
                  sy_duration := js_add (sy_duration s)
                     (VideoChunk_getOutputDuration (with_transition (c, tr))),
                  sy_targetFrameCount :=
                    js_add (sy_targetFrameCount s) (sy_targetFrameCount (with_transition (c, tr)))\<rparr>"
    using assms(1) unfolding input_def w by (simp add: Let_def split: if_splits)
  show "chunks s' = chunks s @ [with_transition (c, tr)]" by (subst s') simp
  show "sy_duration s' = js_add (sy_duration s) (effective_duration (with_transition (c, tr)))"
    by (subst s') (simp add: VideoChunk_getOutputDuration_unrendered[OF u])
qed

lemma input_all_result:
  assumes "input_all cts s = Inr s'" and "\<forall>ct \<in> set cts. unrendered (fst ct)"
  shows "chunks s' = chunks s @ map with_transition cts
         \<and> sy_duration s' = foldl js_add (sy_duration s) (map effective_duration (map with_transition cts))"
  using assms
proof (induction cts arbitrary: s)
  case Nil
  then show ?case by simp
next
  case (Cons ct cts)
  obtain c tr where ct: "ct = (c, tr)" by (cases ct)
  from Cons.prems(1) obtain s1 where s1: "input c tr s = Inr s1" "input_all cts s1 = Inr s'"
    unfolding ct by (auto split: sum.splits)
  have u: "unrendered c" using Cons.prems(2) ct by simp
  note r = input_result[OF s1(1) u]
  have "chunks s' = chunks s1 @ map with_transition cts
         \<and> sy_duration s' = foldl js_add (sy_duration s1) (map effective_duration (map with_transition cts))"
    using Cons.IH[OF s1(2)] Cons.prems(2) by simp
  then show ?case using r ct by simp
qed

lemma js_sum_Fin: "foldl js_add (Fin a) (map Fin xs) = Fin (a + sum_list xs)"
  by (induction xs arbitrary: a) (simp_all add: add.assoc)

lemma new_ChunkSynthesizer_empty:
  assumes "new_ChunkSynthesizer extname options [] = Inr s"
  shows "chunks s = []" and "sy_duration s = Fin 0"
  using assms
  by (auto simp: new_ChunkSynthesizer_def new_Synthesizer_def Synthesizer.extend_def Let_def
      durationToFrameCount_def split: sum.splits if_splits)






subsection \<open>The packed payload\<close>

lemma of_char_digit: "(d::nat) < 10 \<Longrightarrow> (of_char (char_of (48 + d) :: char) :: nat) = 48 + d"
  by simp

lemma is_digit_char_of: "(d::nat) < 10 \<Longrightarrow> is_digit (char_of (48 + d))"
  unfolding is_digit_def by (simp add: of_char_digit)

lemma decimal_digits: "\<forall>c \<in> set (decimal n). is_digit c"
proof (induction n rule: decimal.induct)
  case (1 n)
  show ?case
  proof (cases "n < 10")
    case True
    then show ?thesis by (subst decimal.simps) (simp add: is_digit_char_of)
  next
    case False
    have "is_digit (char_of (48 + n mod 10))" by (rule is_digit_char_of) simp
    then show ?thesis
      using False 1 by (subst decimal.simps) simp
  qed
qed

lemma decimal_nonempty: "decimal n \<noteq> []"
  by (subst decimal.simps) simp

lemma digit_val_10: "is_digit c \<Longrightarrow> digit_val 10 c = Some (of_char c - 48)"
  by (auto simp: digit_val_def is_digit_def Let_def)

lemma parse_digits_append:
  assumes "\<forall>c \<in> set xs. is_digit c"
  shows "parse_digits 10 (xs @ ys) acc seen
           = parse_digits 10 ys (foldl (\<lambda>a c. a * 10 + (of_char c - 48)) acc xs)
               (seen \<or> xs \<noteq> [])"
  using assms by (induction xs arbitrary: acc seen) (simp_all add: digit_val_10)

lemma foldl_decimal: "foldl (\<lambda>a c. a * 10 + (of_char c - 48)) 0 (decimal n) = n"
proof (induction n rule: decimal.induct)
  case (1 n)
  show ?case
  proof (cases "n < 10")
    case True
    then show ?thesis by (subst decimal.simps) (simp add: of_char_digit)
  next
    case False
    have "(of_char (char_of (48 + n mod 10) :: char) :: nat) = 48 + n mod 10"
      by (rule of_char_digit) simp
    then show ?thesis
      using False 1 by (subst decimal.simps) simp
  qed
qed

lemma parse_digits_decimal: "parse_digits 10 (decimal n) 0 False = Some n"
  using parse_digits_append[OF decimal_digits, of n "[]" 0 False]
  by (simp add: foldl_decimal decimal_nonempty)

lemma is_digit_not_special:
  assumes "is_digit c"
  shows "\<not> is_space c" "c \<noteq> CHR ''-''" "c \<noteq> CHR ''+''" "c \<noteq> CHR ''x''" "c \<noteq> CHR ''X''"
    "c \<noteq> CHR ''!''"
  using assms by (auto simp: is_digit_def is_space_def)

lemma parseInt_string_decimal: "parseInt_string (decimal n) = Some (int n)"
proof -
  obtain c cs where d: "decimal n = c # cs"
    using decimal_nonempty[of n] by (cases "decimal n") auto
  have c: "is_digit c" and cs: "\<forall>x \<in> set cs. is_digit x"
    using decimal_digits[of n] d by simp_all
  have dw: "dropWhile is_space (decimal n) = decimal n"
    using c d by (simp add: is_digit_not_special)
  have px: "(case c # cs of
               c' # x # r \<Rightarrow> if c' = CHR ''0'' \<and> (x = CHR ''x'' \<or> x = CHR ''X'')
                               then (16, r) else (10, c # cs)
             | _ \<Rightarrow> (10 :: nat, c # cs)) = (10, c # cs)"
    using cs by (cases cs) (auto simp: is_digit_not_special)
  show ?thesis
    unfolding parseInt_string_def dw Let_def
    using c px parse_digits_decimal[of n]
    by (simp add: d is_digit_not_special)
qed

lemma find_delimiter_append:
  assumes "\<forall>c \<in> set xs. c \<noteq> CHR ''!''"
  shows "find_delimiter (xs @ CHR ''!'' # ys) i = Some (i + length xs)"
  using assms by (induction xs arbitrary: i) simp_all

lemma pack_loop_keys: "map fst (fst (pack_loop data off)) = map fst data"
  by (induction data off rule: pack_loop.induct) (simp_all add: Let_def case_prod_beta)

lemma slice_middle:
  "slice (xs @ b @ ys) (int (length xs)) (int (length xs + length b)) = b"
  by (simp add: slice_def Let_def)

lemma unpack_value_untagged: "\<not> tagged (Val v) \<Longrightarrow> unpack_value packed bo v = Inr (UJson v)"
  by (auto simp: unpack_value_def split: json.splits list.splits)

lemma unpack_value_reference:
  "unpack_value packed bo (JArr [JStr ''buffer'', JNum s, JNum e])
     = Inr (UBytes (slice packed (int bo + s) (int bo + e)))"
  by (simp add: unpack_value_def nth_opt_def)

lemma unpack_values_pack_loop:
  assumes "\<forall>kf \<in> set data. \<not> tagged (snd kf)"
    and "packed = xs @ concat (snd (pack_loop data off)) @ ys"
    and "length xs = bo + off"
  shows "unpack_values packed bo (map snd (fst (pack_loop data off)))
           = Inr (map (expected_field \<circ> snd) data)"
  using assms
proof (induction data off arbitrary: xs rule: pack_loop.induct)
  case (1 bufferOffset)
  then show ?case by simp
next
  case (2 key b rest bufferOffset)
  let ?bufs = "snd (pack_loop rest (bufferOffset + length b))"
  have p: "packed = xs @ b @ (concat ?bufs @ ys)"
    using "2.prems"(2) by (simp add: Let_def case_prod_beta)
  have e1: "int bo + int bufferOffset = int (length xs)"
    and e2: "int bo + int (bufferOffset + length b) = int (length xs + length b)"
    using "2.prems"(3) by simp_all
  have sl: "slice packed (int bo + int bufferOffset) (int bo + int (bufferOffset + length b)) = b"
    unfolding p e1 e2 by (rule slice_middle)
  then have sl': "slice packed (int bo + int bufferOffset)
                    (int bo + (int bufferOffset + int (length b))) = b"
    by simp
  have ih: "unpack_values packed bo (map snd (fst (pack_loop rest (bufferOffset + length b))))
              = Inr (map (expected_field \<circ> snd) rest)"
    using "2.prems" p by (intro "2.IH"[where xs = "xs @ b"]) simp_all
  show ?case
    by (simp add: Let_def case_prod_beta unpack_value_reference sl' ih expected_field_def)
next
  case (3 key v rest bufferOffset)
  have u: "unpack_value packed bo v = Inr (UJson v)"
    using "3.prems"(1) by (simp add: unpack_value_untagged)
  have ih: "unpack_values packed bo (map snd (fst (pack_loop rest bufferOffset)))
              = Inr (map (expected_field \<circ> snd) rest)"
    using "3.prems" by (intro "3.IH"[where xs = xs]) (simp_all add: Let_def case_prod_beta)
  show ?case
    by (simp add: Let_def case_prod_beta u ih expected_field_def)
qed

lemma JSON_stringify_object_nonempty: "JSON_stringify (JObj kvs) \<noteq> []"
  by simp

lemma expected_unpacked_zip:
  "UObject (zip (map fst data) (map (expected_field \<circ> snd) data)) = expected_unpacked data"
  by (simp add: expected_unpacked_def expected_field_def zip_map_map zip_same_conv_map
      case_prod_beta comp_def)

lemma unpackData_object:
  assumes "find_delimiter p 0 = Some i"
    and "parseInt_string (take i p) = Some (int n)"
    and "0 < n" and "i + 1 + n \<le> length p"
    and "JSON_parse (take n (drop (i + 1) p)) = Some (JObj kvs)"
    and "unpack_values p (i + 1 + n) (map snd kvs) = Inr us"
  shows "unpackData JSON_parse p = Inr (UObject (zip (map fst kvs) us))"
  using assms by (simp add: unpackData_def Let_def)

section \<open>The claims\<close>



text \<open>
  Claim C2, at an input where the code departs from it. With actions registered at 20
  and 100 ms, \<^verbatim>\<open>seekTimeActions(150)\<close> removes and calls the action at 100, not the one
  with the smallest key: the keys are sorted as strings, and \<^verbatim>\<open>"100" < "20"\<close>. An action
  registered at 0 is never called, since the key found is tested for truthiness.
\<close>

theorem C2_lexicographic_order:
  "seekTimeActions 150 \<lparr>timeActions = [(20, ''first''), (100, ''second'')], invoked = []\<rparr>
     = \<lparr>timeActions = [(20, ''first'')], invoked = [''second'']\<rparr>
   \<and> seekTimeActions 150 \<lparr>timeActions = [(0, ''zero'')], invoked = []\<rparr>
     = \<lparr>timeActions = [(0, ''zero'')], invoked = []\<rparr>"
  by code_simp




text \<open>
  Claim C4. When chunks that have not been rendered are input to a new
  \<^verbatim>\<open>ChunkSynthesizer\<close> and every input succeeds, the duration of the synthesizer is the
  sum over the stored chunks of \<open>duration - transition.duration\<close>, a chunk without
  transition contributing the transition duration 0. The sum is the one the code
  computes, from the left; when all the durations are finite it is the ordinary sum.
\<close>

theorem C4_total_duration:
  assumes "new_ChunkSynthesizer extname options [] = Inr s0"
    and "input_all cts s0 = Inr s"
    and "\<forall>ct \<in> set cts. unrendered (fst ct)"
  shows "chunks s = map with_transition cts
         \<and> sy_duration s = js_sum (map effective_duration (chunks s))
         \<and> ((\<forall>c \<in> set (chunks s). sy_duration c = Fin (the_Fin (sy_duration c))
                \<and> transitionDuration c = Fin (the_Fin (transitionDuration c)))
              \<longrightarrow> sy_duration s
                    = Fin (\<Sum>c\<leftarrow>chunks s. the_Fin (sy_duration c) - the_Fin (transitionDuration c)))"
proof -
  note e = new_ChunkSynthesizer_empty[OF assms(1)]
  have r: "chunks s = map with_transition cts"
    "sy_duration s = js_sum (map effective_duration (chunks s))"
    using input_all_result[OF assms(2,3)] e by (simp_all add: js_sum_def)
  have f: "sy_duration s
             = Fin (\<Sum>c\<leftarrow>chunks s. the_Fin (sy_duration c) - the_Fin (transitionDuration c))"
    if fin: "\<forall>c \<in> set (chunks s). sy_duration c = Fin (the_Fin (sy_duration c))
                \<and> transitionDuration c = Fin (the_Fin (transitionDuration c))"
  proof -
    have "effective_duration c = Fin (the_Fin (sy_duration c) - the_Fin (transitionDuration c))"
      if "c \<in> set (chunks s)" for c
    proof -
      have "sy_duration c = Fin (the_Fin (sy_duration c))"
        "transitionDuration c = Fin (the_Fin (transitionDuration c))"
        using fin that by auto
      then show ?thesis
        unfolding effective_duration_def js_sub_def
        by (metis js_add.simps(1) js_neg.simps(1) diff_conv_add_uminus)
    qed
    then have m: "map effective_duration (chunks s)
                = map Fin (map (\<lambda>c. the_Fin (sy_duration c) - the_Fin (transitionDuration c)) (chunks s))"
      by simp
    have "sy_duration s = js_sum (map effective_duration (chunks s))" by (rule r(2))
    also have "\<dots> = foldl js_add (Fin 0)
        (map Fin (map (\<lambda>c. the_Fin (sy_duration c) - the_Fin (transitionDuration c)) (chunks s)))"
      unfolding js_sum_def m ..
    also have "\<dots> = Fin (0 + (\<Sum>c\<leftarrow>chunks s. the_Fin (sy_duration c) - the_Fin (transitionDuration c)))"
      by (rule js_sum_Fin)
    finally show ?thesis by simp
  qed
  show ?thesis using r f by blast
qed

theorem C4_witness:
  "\<exists>s0 s. new_ChunkSynthesizer mp4_extname hd_options [] = Inr s0
     \<and> input_all [(scene 5000 None, Some \<lparr>tr_id = ''fade'', tr_duration = Fin 1000\<rparr>),
                   (scene 5000 None, None)] s0 = Inr s
     \<and> sy_duration s = Fin 9000"
proof -
  let ?s0 = "Synthesizer.extend
      \<lparr>sy_width = Fin 1280, sy_height = Fin 720, sy_fps = Fin 30, sy_duration = Fin 0,
       sy_format = ''mp4'', sy_frameCount = 0, sy_targetFrameCount = Fin 0, sy_state = READY,
       sy_audios = []\<rparr> \<lparr>chunks = []\<rparr>"
  let ?cts = "[(scene 5000 None, Some \<lparr>tr_id = ''fade'', tr_duration = Fin 1000\<rparr>),
               (scene 5000 None, None)]"
  have a: "new_ChunkSynthesizer mp4_extname hd_options [] = Inr ?s0"
    by (simp add: new_ChunkSynthesizer_def new_Synthesizer_def hd_options_def SUPPORT_FORMAT_def
        durationToFrameCount_def Let_def)
  obtain s where b: "input_all ?cts ?s0 = Inr s"
    by (simp add: input_def scene_def js_eq_def Synthesizer.extend_def Let_def)
  have u: "\<forall>ct \<in> set ?cts. unrendered (fst ct)"
    by (simp add: unrendered_def scene_def)
  have "sy_duration s = Fin 9000"
    using C4_total_duration[OF a b u]
    by (simp add: with_transition_def scene_def transitionDuration_def js_sum_def
        effective_duration_def js_sub_def)
  then show ?thesis using a b by blast
qed




text \<open>
  Claim C6 fails for a non-buffer field that is an array starting with the string
  \<^verbatim>\<open>buffer\<close>: \<^verbatim>\<open>{x: ["buffer", 0, 0]}\<close> comes back as \<^verbatim>\<open>{x: Uint8Array(0)}\<close>.
\<close>

theorem C6_counterexample:
  "unpackData (inverse_parse (JObj [(''x'', buffer_like)])) (packData [(''x'', Val buffer_like)])
     = Inr (UObject [(''x'', UBytes [])])
   \<and> expected_unpacked [(''x'', Val buffer_like)] = UObject [(''x'', UJson buffer_like)]"
  by code_simp

text \<open>
  Claim C6, amended. For a descriptor whose fields are buffers or JSON values, none
  of the JSON values being an array whose first entry is the string \<^verbatim>\<open>buffer\<close>, and
  whose header is JSON-serializable (\<^verbatim>\<open>JSON.parse\<close> gives the header back from its
  text): unpacking the packed payload returns the same keys in order, the same
  non-buffer values and, for every buffer, exactly its bytes.
\<close>

theorem C6_round_trip:
  assumes "JSON_parse (JSON_stringify (JObj (fst (pack_loop data 0))))
             = Some (JObj (fst (pack_loop data 0)))"
    and "\<forall>kf \<in> set data. \<not> tagged (snd kf)"
  shows "unpackData JSON_parse (packData data) = Inr (expected_unpacked data)"
proof -
  let ?obj = "fst (pack_loop data 0)" and ?bufs = "snd (pack_loop data 0)"
  let ?J = "JSON_stringify (JObj ?obj)"
  let ?H = "decimal (length ?J)"
  let ?packed = "?H @ CHR ''!'' # ?J @ concat ?bufs"
  have pk: "packData data = ?packed"
    by (simp add: packData_def Let_def case_prod_beta)
  have nb: "\<forall>c \<in> set ?H. c \<noteq> CHR ''!''"
    using decimal_digits[of "length ?J"] is_digit_not_special(6) by blast
  have fd: "find_delimiter ?packed 0 = Some (length ?H)"
    using find_delimiter_append[OF nb, of "?J @ concat ?bufs" 0] by simp
  have th: "take (length ?H) ?packed = ?H" by simp
  have pi: "parseInt_string ?H = Some (int (length ?J))" by (rule parseInt_string_decimal)
  have pos: "0 < length ?J" using JSON_stringify_object_nonempty[of ?obj] by simp
  have ob: "take (length ?J) (drop (length ?H + 1) ?packed) = ?J" by simp
  have uv: "unpack_values ?packed (length ?H + 1 + length ?J) (map snd ?obj)
              = Inr (map (expected_field \<circ> snd) data)"
    by (rule unpack_values_pack_loop[OF assms(2), where xs = "?H @ CHR ''!'' # ?J" and ys = "[]"])
       simp_all
  have pj: "JSON_parse (take (length ?J) (drop (length ?H + 1) ?packed)) = Some (JObj ?obj)"
    unfolding ob by (rule assms(1))
  have pt: "parseInt_string (take (length ?H) ?packed) = Some (int (length ?J))"
    unfolding th by (rule pi)
  have le: "length ?H + 1 + length ?J \<le> length ?packed" by simp
  have "unpackData JSON_parse ?packed
          = Inr (UObject (zip (map fst ?obj) (map (expected_field \<circ> snd) data)))"
    using fd pt pos le pj uv by (rule unpackData_object)
  then show ?thesis
    unfolding pk pack_loop_keys expected_unpacked_zip .
qed

theorem C6_witness:
  "unpackData (inverse_parse (JObj (fst (pack_loop video_result 0)))) (packData video_result)
     = Inr (UObject [(''buffer'', UBytes [CHR 0x00, CHR 0x21, CHR 0xFF]),
                     (''maskBuffer'', UBytes []),
                     (''hasMask'', UJson (JBool False)), (''hasAudio'', UJson (JBool True)),
                     (''note'', UJson (JStr ''a!b''))])"
  using C6_round_trip[of "inverse_parse (JObj (fst (pack_loop video_result 0)))" video_result]
  by (simp add: inverse_parse_def expected_unpacked_def video_result_def)






text \<open>
  Claim C9. For a \<^verbatim>\<open>VideoCanvas\<close> that is not destroyed, whose start and end times passed
  the assertions of the constructor, and a time \<open>t\<close> that is a number: \<^verbatim>\<open>canPlay(t)\<close> is
  \<open>true\<close> exactly when \<open>startTime \<le> t < endTime\<close> (and \<open>false\<close> otherwise), and
  \<^verbatim>\<open>canDestory(t)\<close> is \<open>true\<close> exactly when \<open>t \<ge> endTime\<close>.
\<close>

theorem C9_canPlay_canDestory:
  assumes "\<not> vc_destoryed m"
    and "u_isNumber (vc_startTime m)" and "u_isNumber (vc_endTime m)" and "t \<noteq> NaN"
  shows "(canPlay m t = Some True)
           = (js_le (ToNumber (vc_startTime m)) t \<and> js_lt t (ToNumber (vc_endTime m)))
         \<and> (canPlay m t = Some True \<or> canPlay m t = Some False)
         \<and> canDestory m t = js_ge t (ToNumber (vc_endTime m))"
proof -
  have tot: "js_lt a b \<or> js_ge a b" if "a \<noteq> NaN" "b \<noteq> NaN" for a b
    using that by (cases a; cases b) (auto simp: js_ge_def js_le_def)
  have excl: "\<not> (js_lt a b \<and> js_ge a b)" for a b
    by (cases a; cases b) (auto simp: js_ge_def js_le_def)
  have s: "ToNumber (vc_startTime m) \<noteq> NaN" and e: "ToNumber (vc_endTime m) \<noteq> NaN"
    using assms by (simp_all add: u_isNumber_def isNaN_def)
  have "js_le (ToNumber (vc_startTime m)) t = (\<not> js_lt t (ToNumber (vc_startTime m)))"
    using tot[OF assms(4) s] excl[of t "ToNumber (vc_startTime m)"] by (auto simp: js_ge_def)
  moreover have "js_lt t (ToNumber (vc_endTime m)) = (\<not> js_ge t (ToNumber (vc_endTime m)))"
    using tot[OF assms(4) e] excl[of t "ToNumber (vc_endTime m)"] by auto
  ultimately show ?thesis
    using assms(1) by (auto simp: canPlay_def canDestory_def)
qed

theorem C9_witness:
  "canPlay \<lparr>vc_startTime = Number (Fin 1000), vc_endTime = Number PInf, vc_destoryed = False\<rparr> (Fin 1000)
     = Some True
   \<and> \<not> canDestory \<lparr>vc_startTime = Number (Fin 1000), vc_endTime = Number PInf, vc_destoryed = False\<rparr> (Fin 1000)"
  using C9_canPlay_canDestory
    [of "\<lparr>vc_startTime = Number (Fin 1000), vc_endTime = Number PInf, vc_destoryed = False\<rparr>" "Fin 1000"]
  by (simp add: u_isNumber_def isNaN_def js_le_def js_ge_def)



end
